theory Spec2Isabelle
  imports Main "HOL-Library.Word" "HOL-Library.List_Lexorder" "HOL-Library.Char_ord"
begin

section \<open>Strings\<close>

text \<open>
  The compose draft and message contents are JavaScript strings: sequences of UTF-16 code
  units. \<open>String.prototype.trim\<close> removes the code units of the ECMAScript productions
  WhiteSpace and LineTerminator from both ends; all of them lie in the basic plane, so each
  is one code unit. Identifiers and timestamps are only compared, never trimmed, and are
  kept as \<open>string\<close>.
\<close>

type_synonym jsstring = "16 word list"

definition isWhiteSpace :: "16 word \<Rightarrow> bool" where
  "isWhiteSpace c =
     (c \<in> set [0x0009, 0x000A, 0x000B, 0x000C, 0x000D, 0x0020, 0x00A0, 0x1680,
                0x2028, 0x2029, 0x202F, 0x205F, 0x3000, 0xFEFF]
      \<or> (0x2000 \<le> c \<and> c \<le> 0x200A))"

definition trim :: "jsstring \<Rightarrow> jsstring" where
  "trim s = rev (dropWhile isWhiteSpace (rev (dropWhile isWhiteSpace s)))"

section \<open>Data\<close>

text \<open>The fields of \<open>Message\<close> and \<open>Chat\<close> that the two components read.
  The source's \<open>_id\<close> is \<open>m_id\<close> for a message and \<open>c_id\<close> for a chat.\<close>

record message =
  m_id :: string
  chatId :: string
  content :: jsstring
  senderName :: "string option"
  createdAt :: string
  isMe :: bool

record chat =
  c_id :: string
  title :: string
  isGroupChat :: bool
  lastMessage :: "message option"

text \<open>The thread response as cached under \<open>["messages", id]\<close>: an envelope whose
  \<open>data.data\<close> is the newest-first message array. The fields the components never read
  are carried along as they are, as the object spreads of the push handler do.\<close>

record api_body =
  body_data :: "message list"
  body_rest :: "(string \<times> string) list"

record api_response =
  resp_data :: api_body
  resp_rest :: "(string \<times> string) list"

text \<open>The directory response as selected from the \<open>["chats"]\<close> query.\<close>

record chat_list =
  activeChats :: "chat list"
  nonActiveChats :: "chat list"

datatype query_key = MessagesKey string | ChatsKey

record send_request =
  req_chatId :: string
  req_content :: jsstring

section \<open>State\<close>

text \<open>
  The state that \<open>MessageView\<close> and the query client hold between events:
  the \<open>chat\<close> prop, the \<open>message\<close> draft of \<open>useState\<close>, the query cache
  (thread responses by chat id, and the directory), the thread fetches that have been
  started and not yet completed, the log of \<open>invalidateQueries\<close> calls, the mutation's
  \<open>isPending\<close> flag, the send requests issued through \<open>chatApi.sendMessage\<close>, and
  the notifications raised through \<open>toast.error\<close>.
\<close>

record view_state =
  chat_id :: string
  draft :: jsstring
  threads :: "string \<Rightarrow> api_response option"
  chats :: "chat_list option"
  fetching :: "string list"
  invalidated :: "query_key list"
  isPending :: bool
  outbox :: "send_request list"
  toasts :: "string list"

text \<open>\<open>invalidateQueries\<close> marks the query stale; the mounted, enabled thread query of
  the displayed chat is fetched again. It writes no data.\<close>

definition invalidateQueries :: "query_key \<Rightarrow> view_state \<Rightarrow> view_state" where
  "invalidateQueries k st =
     st\<lparr>fetching :=
          (case k of
             MessagesKey c \<Rightarrow>
               if c = chat_id st \<and> c \<noteq> [] then fetching st @ [c] else fetching st
           | ChatsKey \<Rightarrow> fetching st),
        invalidated := invalidated st @ [k]\<rparr>"

text \<open>The stored newest-first thread of a chat: \<open>select: (data) => data.data.data\<close>,
  undefined while nothing is cached.\<close>

definition messages_of :: "view_state \<Rightarrow> string \<Rightarrow> message list option" where
  "messages_of st c = map_option (\<lambda>r. body_data (resp_data r)) (threads st c)"

definition stored :: "view_state \<Rightarrow> string \<Rightarrow> message list" where
  "stored st c = (case messages_of st c of None \<Rightarrow> [] | Some ms \<Rightarrow> ms)"

section \<open>The push handler\<close>

text \<open>The updater passed to \<open>setQueryData\<close> in \<open>handleNewMessage\<close>.\<close>

definition prepend :: "message \<Rightarrow> api_response option \<Rightarrow> api_response" where
  "prepend newMessage oldData =
     (case oldData of
        None \<Rightarrow> \<lparr>resp_data = \<lparr>body_data = [newMessage], body_rest = []\<rparr>, resp_rest = []\<rparr>
      | Some old \<Rightarrow>
          old\<lparr>resp_data := (resp_data old)\<lparr>body_data := newMessage # body_data (resp_data old)\<rparr>\<rparr>)"

definition setQueryData ::
  "string \<Rightarrow> (api_response option \<Rightarrow> api_response) \<Rightarrow> view_state \<Rightarrow> view_state" where
  "setQueryData c upd st = st\<lparr>threads := (threads st)(c := Some (upd (threads st c)))\<rparr>"

definition handleNewMessage :: "view_state \<Rightarrow> message \<Rightarrow> view_state" where
  "handleNewMessage st newMessage =
     (if chatId newMessage = chat_id st
      then invalidateQueries ChatsKey (setQueryData (chat_id st) (prepend newMessage) st)
      else st)"

section \<open>Fetches\<close>

text \<open>Selecting a chat changes the \<open>chat\<close> prop; the thread query of the new key starts a
  fetch when it is enabled (\<open>enabled: !!chat._id\<close>). A completed thread fetch is written
  to the cache entry of the key it was issued for, whichever chat is displayed by then; a
  completed directory fetch replaces the directory.\<close>

definition selectChat :: "string \<Rightarrow> view_state \<Rightarrow> view_state" where
  "selectChat c st =
     st\<lparr>chat_id := c, fetching := (if c = [] then fetching st else fetching st @ [c])\<rparr>"

definition messagesFetched :: "string \<Rightarrow> api_response \<Rightarrow> view_state \<Rightarrow> view_state" where
  "messagesFetched c r st =
     st\<lparr>threads := (threads st)(c := Some r), fetching := removeAll c (fetching st)\<rparr>"

definition chatsFetched :: "chat_list \<Rightarrow> view_state \<Rightarrow> view_state" where
  "chatsFetched d st = st\<lparr>chats := Some d\<rparr>"

text \<open>The preview that \<open>ChatList\<close> shows for a chat: the \<open>lastMessage\<close> of its entry in
  \<open>allChats\<close>.\<close>

definition allChats :: "view_state \<Rightarrow> chat list" where
  "allChats st = (case chats st of None \<Rightarrow> [] | Some d \<Rightarrow> activeChats d @ nonActiveChats d)"

definition preview :: "view_state \<Rightarrow> string \<Rightarrow> message option" where
  "preview st c =
     (case find (\<lambda>ch. c_id ch = c) (allChats st) of None \<Rightarrow> None | Some ch \<Rightarrow> lastMessage ch)"

section \<open>Sending\<close>

definition mutate :: "send_request \<Rightarrow> view_state \<Rightarrow> view_state" where
  "mutate rq st = st\<lparr>isPending := True, outbox := outbox st @ [rq]\<rparr>"

definition handleSendMessage :: "view_state \<Rightarrow> view_state" where
  "handleSendMessage st =
     (if trim (draft st) = [] then st
      else mutate \<lparr>req_chatId = chat_id st, req_content = trim (draft st)\<rparr> st)"

definition onSuccess :: "view_state \<Rightarrow> view_state" where
  "onSuccess st =
     invalidateQueries ChatsKey
       (invalidateQueries (MessagesKey (chat_id st)) (st\<lparr>draft := [], isPending := False\<rparr>))"

definition onError :: "view_state \<Rightarrow> view_state" where
  "onError st =
     st\<lparr>toasts := toasts st @ [''Errore nell'invio del messaggio''], isPending := False\<rparr>"

text \<open>The \<open>disabled\<close> attributes of the text input and of the submit button. The browser
  submits the form, by a click or by the Enter key, only through a submit button that is
  not disabled.\<close>

definition input_disabled :: "view_state \<Rightarrow> bool" where
  "input_disabled st = isPending st"

definition submit_disabled :: "view_state \<Rightarrow> bool" where
  "submit_disabled st = (trim (draft st) = [] \<or> isPending st)"

definition submitForm :: "view_state \<Rightarrow> view_state" where
  "submitForm st = (if submit_disabled st then st else handleSendMessage st)"

section \<open>Rendering\<close>

text \<open>
  JavaScript arrays are mutable objects: \<open>reverse\<close> reverses the array it is called on in
  place and returns it, \<open>slice\<close> allocates a copy. The array store holds one array per
  address; a result of \<open>None\<close> is a reference to an address that was never allocated.
\<close>

type_synonym addr = nat
type_synonym arrays = "message list list"

definition slice :: "arrays \<Rightarrow> addr \<Rightarrow> (arrays \<times> addr) option" where
  "slice h a = (if a < length h then Some (h @ [h ! a], length h) else None)"

definition reverse :: "arrays \<Rightarrow> addr \<Rightarrow> (arrays \<times> addr) option" where
  "reverse h a = (if a < length h then Some (h[a := rev (h ! a)], a) else None)"

definition read_array :: "arrays \<Rightarrow> addr \<Rightarrow> message list option" where
  "read_array h a = (if a < length h then Some (h ! a) else None)"

text \<open>\<open>messages.slice().reverse().map(...)\<close>: one row per message, in the order of the
  reversed copy; a row is identified with its message.\<close>

definition render_rows :: "arrays \<Rightarrow> addr \<Rightarrow> (arrays \<times> message list) option" where
  "render_rows h a =
     (case slice h a of None \<Rightarrow> None
      | Some (h1, b) \<Rightarrow>
          (case reverse h1 b of None \<Rightarrow> None
           | Some (h2, c) \<Rightarrow>
               (case read_array h2 c of None \<Rightarrow> None | Some rows \<Rightarrow> Some (h2, rows))))"

datatype view = Skeleton | Rows "message list" | Placeholder

definition isLoading :: "view_state \<Rightarrow> bool" where
  "isLoading st = (threads st (chat_id st) = None \<and> chat_id st \<in> set (fetching st))"

text \<open>The message pane of \<open>MessageView\<close>. The array selected from the cache entry of
  the displayed chat is the only array of the store, at address 0; \<open>render_pane\<close> gives
  the pane together with the array store as rendering leaves it.\<close>

definition pane_store :: "view_state \<Rightarrow> arrays" where
  "pane_store st = (case messages_of st (chat_id st) of None \<Rightarrow> [] | Some ms \<Rightarrow> [ms])"

definition render_pane :: "view_state \<Rightarrow> view \<times> arrays" where
  "render_pane st =
     (if isLoading st then (Skeleton, pane_store st)
      else case messages_of st (chat_id st) of
             None \<Rightarrow> (Placeholder, pane_store st)
           | Some ms \<Rightarrow>
               if length ms > 0
               then (case render_rows (pane_store st) 0 of
                       None \<Rightarrow> (Placeholder, pane_store st)
                     | Some (h, rows) \<Rightarrow> (Rows rows, h))
               else (Placeholder, pane_store st))"

definition message_pane :: "view_state \<Rightarrow> view" where
  "message_pane st = fst (render_pane st)"

section \<open>Deliveries and sample data\<close>

text \<open>Push events handled one after the other, and the number of stored messages that
  carry a given id.\<close>

definition deliver :: "view_state \<Rightarrow> message list \<Rightarrow> view_state" where
  "deliver st ms = foldl handleNewMessage st ms"

definition copies :: "string \<Rightarrow> message list \<Rightarrow> nat" where
  "copies i ms = length (filter (\<lambda>x. m_id x = i) ms)"

text \<open>Two messages of chat A five seconds apart, one message of chat B and an older one,
  and a session that displays chat A with nothing cached for its thread. Timestamps are
  ISO-8601 strings in UTC, which the lexicographic order on strings orders by time.\<close>

definition ex_m1 :: message where
  "ex_m1 = \<lparr>m_id = ''m1'', chatId = ''A'', content = [0x68, 0x69], senderName = Some ''Ana'',
            createdAt = ''2024-05-01T10:00:00Z'', isMe = False\<rparr>"

definition ex_m2 :: message where
  "ex_m2 = \<lparr>m_id = ''m2'', chatId = ''A'', content = [0x6F, 0x6B], senderName = Some ''Ana'',
            createdAt = ''2024-05-01T10:00:05Z'', isMe = False\<rparr>"

definition ex_b0 :: message where
  "ex_b0 = \<lparr>m_id = ''b0'', chatId = ''B'', content = [0x79, 0x6F], senderName = Some ''Bo'',
            createdAt = ''2024-04-30T08:00:00Z'', isMe = False\<rparr>"

definition ex_b1 :: message where
  "ex_b1 = \<lparr>m_id = ''b1'', chatId = ''B'', content = [0x68, 0x65, 0x79], senderName = Some ''Bo'',
            createdAt = ''2024-05-01T10:00:03Z'', isMe = False\<rparr>"

definition ex_chats :: chat_list where
  "ex_chats =
     \<lparr>activeChats =
        [\<lparr>c_id = ''A'', title = ''Ana'', isGroupChat = False, lastMessage = Some ex_m1\<rparr>,
         \<lparr>c_id = ''B'', title = ''Bo'', isGroupChat = False, lastMessage = Some ex_b0\<rparr>],
      nonActiveChats = []\<rparr>"

definition ex_page :: api_response where
  "ex_page = \<lparr>resp_data = \<lparr>body_data = [ex_m1], body_rest = [(''success'', ''true'')]\<rparr>,
              resp_rest = [(''status'', ''200'')]\<rparr>"

definition ex_state :: view_state where
  "ex_state =
     \<lparr>chat_id = ''A'', draft = [], threads = (\<lambda>c. None), chats = Some ex_chats,
      fetching = [], invalidated = [], isPending = False, outbox = [], toasts = []\<rparr>"

definition ex_page_b :: api_response where
  "ex_page_b = \<lparr>resp_data = \<lparr>body_data = [ex_b1, ex_b0], body_rest = []\<rparr>, resp_rest = []\<rparr>"

text \<open>A draft of a space, a tab, an ideographic space and a line feed, and a draft of
  a space, the letters \<open>h\<close> and \<open>i\<close>, and a line feed.\<close>

definition ex_blank :: jsstring where
  "ex_blank = [0x0020, 0x0009, 0x3000, 0x000A]"

definition ex_padded :: jsstring where
  "ex_padded = [0x0020, 0x0068, 0x0069, 0x000A]"

section \<open>Basic facts\<close>

lemma chat_id_handleNewMessage: "chat_id (handleNewMessage st m) = chat_id st"
  by (simp add: handleNewMessage_def invalidateQueries_def setQueryData_def)

lemma stored_handleNewMessage:
  "chatId m = chat_id st \<Longrightarrow> stored (handleNewMessage st m) (chat_id st) = m # stored st (chat_id st)"
  by (simp add: handleNewMessage_def invalidateQueries_def setQueryData_def stored_def
      messages_of_def prepend_def split: option.splits)

lemma chats_handleNewMessage: "chats (handleNewMessage st m) = chats st"
  by (simp add: handleNewMessage_def invalidateQueries_def setQueryData_def)

lemma preview_handleNewMessage: "preview (handleNewMessage st m) c = preview st c"
  by (simp add: preview_def allChats_def chats_handleNewMessage)

lemma chat_id_deliver: "chat_id (deliver st ms) = chat_id st"
  unfolding deliver_def by (induction ms arbitrary: st) (simp_all add: chat_id_handleNewMessage)

lemma chats_deliver: "chats (deliver st ms) = chats st"
  unfolding deliver_def by (induction ms arbitrary: st) (simp_all add: chats_handleNewMessage)

lemma preview_deliver: "preview (deliver st ms) c = preview st c"
  by (simp add: preview_def allChats_def chats_deliver)

text \<open>Pushing the same message \<open>n\<close> times stacks \<open>n\<close> copies on the thread.\<close>

lemma stored_deliver_replicate:
  "chatId m = chat_id st \<Longrightarrow>
   stored (deliver st (replicate n m)) (chat_id st) = replicate n m @ stored st (chat_id st)"
proof (induction n arbitrary: st)
  case 0
  then show ?case by (simp add: deliver_def)
next
  case (Suc n)
  let ?st = "handleNewMessage st m"
  have c: "chatId m = chat_id ?st"
    using Suc.prems by (simp add: chat_id_handleNewMessage)
  have "stored (deliver ?st (replicate n m)) (chat_id ?st) = replicate n m @ stored ?st (chat_id ?st)"
    by (rule Suc.IH [OF c])
  then show ?case
    using Suc.prems
    by (simp add: deliver_def chat_id_handleNewMessage stored_handleNewMessage
        replicate_app_Cons_same)
qed

lemma stored_deliver2:
  "chatId m1 = chat_id st \<Longrightarrow> chatId m2 = chat_id st \<Longrightarrow>
   stored (deliver st [m1, m2]) (chat_id st) = m2 # m1 # stored st (chat_id st)"
  using stored_handleNewMessage [of m2 "handleNewMessage st m1"]
  by (simp add: deliver_def chat_id_handleNewMessage stored_handleNewMessage)

lemma copies_append: "copies i (xs @ ys) = copies i xs + copies i ys"
  by (simp add: copies_def)

lemma copies_replicate: "copies (m_id m) (replicate n m) = n"
  by (simp add: copies_def)

text \<open>The rows are the reversal of the array, computed on a fresh copy.\<close>

lemma render_rows_eq:
  "a < length h \<Longrightarrow> render_rows h a = Some (h @ [rev (h ! a)], rev (h ! a))"
  by (simp add: render_rows_def slice_def reverse_def read_array_def nth_append)

lemma message_pane_unfold:
  "message_pane st =
     (if isLoading st then Skeleton
      else case messages_of st (chat_id st) of
             None \<Rightarrow> Placeholder
           | Some ms \<Rightarrow> if ms = [] then Placeholder else Rows (rev ms))"
  by (simp add: message_pane_def render_pane_def pane_store_def render_rows_eq
      split: option.splits)

lemma message_pane_rows:
  "stored st (chat_id st) \<noteq> [] \<Longrightarrow> message_pane st = Rows (rev (stored st (chat_id st)))"
  by (auto simp add: message_pane_unfold isLoading_def stored_def messages_of_def
      split: option.splits)

text \<open>A draft trims to the empty string exactly when all its code units are white space.\<close>

lemma all_dropWhile: "(\<forall>x\<in>set (dropWhile P s). P x) \<longleftrightarrow> (\<forall>x\<in>set s. P x)"
  by (induction s) auto

lemma trim_eq_Nil_iff: "trim s = [] \<longleftrightarrow> (\<forall>c\<in>set s. isWhiteSpace c)"
  by (simp add: trim_def dropWhile_eq_Nil_conv all_dropWhile)

section \<open>Repeated and reordered push deliveries\<close>

text \<open>
  Claim C1, as amended. The push handler compares no ids. Every push delivery of a message
  \<open>m\<close> of the displayed chat prepends \<open>m\<close> to the stored thread, whether or not a
  message with its id is already stored: after \<open>n\<close> deliveries the thread is \<open>n\<close>
  copies of \<open>m\<close> in front of the earlier thread, and holds \<open>n\<close> more messages with the
  id of \<open>m\<close> than before. A send confirmation stores no message, and a completed thread
  fetch replaces the thread by the fetched page.
\<close>

theorem push_prepends_every_delivery:
  "chatId m = chat_id st \<Longrightarrow>
   stored (deliver st (replicate n m)) (chat_id st) = replicate n m @ stored st (chat_id st) \<and>
   copies (m_id m) (stored (deliver st (replicate n m)) (chat_id st))
     = n + copies (m_id m) (stored st (chat_id st)) \<and>
   stored (onSuccess st) (chat_id st) = stored st (chat_id st) \<and>
   stored (messagesFetched (chat_id st) r st) (chat_id st) = body_data (resp_data r)"
proof -
  assume a: "chatId m = chat_id st"
  have pushed: "stored (deliver st (replicate n m)) (chat_id st) = replicate n m @ stored st (chat_id st)"
    by (rule stored_deliver_replicate [OF a])
  have counted: "copies (m_id m) (stored (deliver st (replicate n m)) (chat_id st))
      = n + copies (m_id m) (stored st (chat_id st))"
    by (simp add: pushed copies_append copies_replicate)
  have confirmed: "stored (onSuccess st) (chat_id st) = stored st (chat_id st)"
    by (simp add: onSuccess_def invalidateQueries_def stored_def messages_of_def)
  have fetched: "stored (messagesFetched (chat_id st) r st) (chat_id st) = body_data (resp_data r)"
    by (simp add: messagesFetched_def stored_def messages_of_def)
  from pushed counted confirmed fetched show ?thesis by simp
qed

theorem push_prepends_every_delivery_witness:
  "chatId ex_m1 = chat_id (messagesFetched ''A'' ex_page ex_state) \<and>
   stored (deliver (messagesFetched ''A'' ex_page ex_state) [ex_m1, ex_m1]) ''A''
     = [ex_m1, ex_m1, ex_m1] \<and>
   copies ''m1'' (stored (deliver (messagesFetched ''A'' ex_page ex_state) [ex_m1, ex_m1]) ''A'') = 3"
proof -
  have h: "chatId ex_m1 = chat_id (messagesFetched ''A'' ex_page ex_state)"
    by (simp add: ex_m1_def ex_state_def messagesFetched_def)
  have base: "stored (messagesFetched ''A'' ex_page ex_state) ''A'' = [ex_m1]"
    by (simp add: stored_def messages_of_def messagesFetched_def ex_page_def)
  have cid: "chat_id (messagesFetched ''A'' ex_page ex_state) = ''A''"
    by (simp add: ex_state_def messagesFetched_def)
  have one: "copies ''m1'' [ex_m1] = 1" and mid: "m_id ex_m1 = ''m1''"
    by (simp_all add: copies_def ex_m1_def)
  note pushed = push_prepends_every_delivery [OF h, of "Suc (Suc 0)" ex_page]
  have thread: "stored (deliver (messagesFetched ''A'' ex_page ex_state) [ex_m1, ex_m1]) ''A''
      = [ex_m1, ex_m1, ex_m1]"
    using pushed by (simp add: base cid)
  have count: "copies ''m1'' (stored (deliver (messagesFetched ''A'' ex_page ex_state) [ex_m1, ex_m1]) ''A'')
      = 3"
    using pushed [THEN conjunct2, THEN conjunct1] by (simp add: base cid one mid)
  from h thread count show ?thesis by simp
qed

text \<open>
  Claim C1 as stated fails: the thread fetched for chat A holds the message \<open>m1\<close>; a
  push event that carries \<open>m1\<close> again is not dropped, and the thread then holds two
  messages with that id.
\<close>

theorem push_duplicates_fetched_message:
  "stored (messagesFetched ''A'' ex_page ex_state) ''A'' = [ex_m1] \<and>
   chatId ex_m1 = chat_id (messagesFetched ''A'' ex_page ex_state) \<and>
   stored (handleNewMessage (messagesFetched ''A'' ex_page ex_state) ex_m1) ''A'' = [ex_m1, ex_m1] \<and>
   copies (m_id ex_m1)
     (stored (handleNewMessage (messagesFetched ''A'' ex_page ex_state) ex_m1) ''A'') = 2"
  by (simp add: handleNewMessage_def messagesFetched_def invalidateQueries_def setQueryData_def
      prepend_def stored_def messages_of_def copies_def ex_page_def ex_state_def ex_m1_def)

text \<open>
  Claim C2, as amended. Two push deliveries for the displayed chat leave the same set of
  stored messages in either order, but the handler never sorts: the rows are rendered in
  delivery order, the message delivered last at the bottom, whatever the timestamps are.
\<close>

theorem push_order_is_rendering_order:
  "chatId m1 = chat_id st \<Longrightarrow> chatId m2 = chat_id st \<Longrightarrow>
   set (stored (deliver st [m2, m1]) (chat_id st)) = set (stored (deliver st [m1, m2]) (chat_id st)) \<and>
   message_pane (deliver st [m1, m2]) = Rows (rev (stored st (chat_id st)) @ [m1, m2]) \<and>
   message_pane (deliver st [m2, m1]) = Rows (rev (stored st (chat_id st)) @ [m2, m1])"
proof -
  assume a: "chatId m1 = chat_id st" and b: "chatId m2 = chat_id st"
  have s12: "stored (deliver st [m1, m2]) (chat_id st) = m2 # m1 # stored st (chat_id st)"
    by (rule stored_deliver2 [OF a b])
  have s21: "stored (deliver st [m2, m1]) (chat_id st) = m1 # m2 # stored st (chat_id st)"
    by (rule stored_deliver2 [OF b a])
  have p12: "message_pane (deliver st [m1, m2]) = Rows (rev (stored (deliver st [m1, m2]) (chat_id st)))"
    using message_pane_rows [of "deliver st [m1, m2]"] s12 by (simp add: chat_id_deliver)
  have p21: "message_pane (deliver st [m2, m1]) = Rows (rev (stored (deliver st [m2, m1]) (chat_id st)))"
    using message_pane_rows [of "deliver st [m2, m1]"] s21 by (simp add: chat_id_deliver)
  show ?thesis
    by (auto simp add: s12 s21 p12 p21)
qed

theorem push_order_is_rendering_order_witness:
  "chatId ex_m1 = chat_id ex_state \<and> chatId ex_m2 = chat_id ex_state \<and>
   message_pane (deliver ex_state [ex_m1, ex_m2]) = Rows [ex_m1, ex_m2] \<and>
   message_pane (deliver ex_state [ex_m2, ex_m1]) = Rows [ex_m2, ex_m1]"
proof -
  have h1: "chatId ex_m1 = chat_id ex_state" and h2: "chatId ex_m2 = chat_id ex_state"
    by (simp_all add: ex_m1_def ex_m2_def ex_state_def)
  have empty: "stored ex_state (chat_id ex_state) = []"
    by (simp add: stored_def messages_of_def ex_state_def)
  show ?thesis
    using h1 h2 push_order_is_rendering_order [OF h1 h2] by (simp add: empty)
qed

text \<open>
  Claim C2 as stated fails: \<open>m1\<close> is five seconds older than \<open>m2\<close>; delivered as
  (\<open>m2\<close>, \<open>m1\<close>) the pane shows \<open>m2\<close> above \<open>m1\<close>, delivered as (\<open>m1\<close>, \<open>m2\<close>)
  it shows \<open>m1\<close> above \<open>m2\<close>.
\<close>

theorem push_order_changes_rendering:
  "ex_m1 \<noteq> ex_m2 \<and> chatId ex_m1 = chatId ex_m2 \<and> chatId ex_m1 = chat_id ex_state \<and>
   createdAt ex_m1 < createdAt ex_m2 \<and>
   message_pane (deliver ex_state [ex_m2, ex_m1]) = Rows [ex_m2, ex_m1] \<and>
   message_pane (deliver ex_state [ex_m1, ex_m2]) = Rows [ex_m1, ex_m2] \<and>
   message_pane (deliver ex_state [ex_m2, ex_m1]) \<noteq> message_pane (deliver ex_state [ex_m1, ex_m2])"
  by (simp add: deliver_def handleNewMessage_def invalidateQueries_def setQueryData_def prepend_def
      message_pane_unfold isLoading_def messages_of_def ex_state_def ex_m1_def ex_m2_def)

section \<open>Push events and the directory\<close>

text \<open>
  Claim C3, as amended. A push event whose message belongs to another chat than the
  displayed one is ignored as a whole: the state is left as it was, so the displayed chat's
  stored thread is unchanged, and the directory preview of the message's own chat is
  neither updated nor invalidated.
\<close>

theorem other_chat_push_is_ignored:
  "chatId m \<noteq> chat_id st \<Longrightarrow>
   handleNewMessage st m = st \<and>
   stored (handleNewMessage st m) (chat_id st) = stored st (chat_id st) \<and>
   preview (handleNewMessage st m) (chatId m) = preview st (chatId m) \<and>
   invalidated (handleNewMessage st m) = invalidated st"
  by (simp add: handleNewMessage_def)

theorem other_chat_push_is_ignored_witness:
  "chatId ex_b1 \<noteq> chat_id ex_state \<and>
   handleNewMessage ex_state ex_b1 = ex_state \<and>
   preview (handleNewMessage ex_state ex_b1) ''B'' = Some ex_b0"
proof -
  have h: "chatId ex_b1 \<noteq> chat_id ex_state"
    by (simp add: ex_b1_def ex_state_def)
  have cb: "chatId ex_b1 = ''B''"
    by (simp add: ex_b1_def)
  have pv: "preview ex_state ''B'' = Some ex_b0"
    by (simp add: preview_def allChats_def ex_state_def ex_chats_def)
  show ?thesis
    using h other_chat_push_is_ignored [OF h] by (simp add: cb pv)
qed

text \<open>
  Claim C3 as stated fails in its second half: while chat A is displayed, a push event
  for chat B leaves the preview of chat B at the older message and invalidates nothing.
\<close>

theorem other_chat_push_keeps_preview:
  "chatId ex_b1 \<noteq> chat_id ex_state \<and>
   preview ex_state ''B'' = Some ex_b0 \<and>
   preview (handleNewMessage ex_state ex_b1) ''B'' = Some ex_b0 \<and>
   ex_b0 \<noteq> ex_b1 \<and>
   chats (handleNewMessage ex_state ex_b1) = chats ex_state \<and>
   invalidated (handleNewMessage ex_state ex_b1) = []"
  by (simp add: handleNewMessage_def preview_def allChats_def ex_state_def ex_chats_def
      ex_b0_def ex_b1_def)

text \<open>
  Claim C5, as amended. The push handler never writes a \<open>lastMessage\<close>: after any
  sequence of push events, in any order and with any timestamps, the directory and every
  preview are what they were, so push deliveries alone never move a preview backwards or
  forwards. A push for the displayed chat only invalidates the \<open>["chats"]\<close> query; the
  preview changes when a directory fetch completes, to the \<open>lastMessage\<close> that the
  response carries, without a comparison of timestamps.
\<close>

theorem push_never_writes_preview:
  "preview (deliver st ms) c = preview st c \<and>
   chats (deliver st ms) = chats st \<and>
   (chatId m = chat_id st \<longrightarrow> invalidated (handleNewMessage st m) = invalidated st @ [ChatsKey]) \<and>
   chats (chatsFetched d st) = Some d \<and>
   preview (chatsFetched d st) c
     = (case find (\<lambda>ch. c_id ch = c) (activeChats d @ nonActiveChats d) of
          None \<Rightarrow> None | Some ch \<Rightarrow> lastMessage ch)"
  by (simp add: preview_deliver chats_deliver handleNewMessage_def invalidateQueries_def
      setQueryData_def chatsFetched_def preview_def allChats_def)

theorem push_never_writes_preview_witness:
  "chatId ex_m2 = chat_id ex_state \<and>
   preview (deliver ex_state [ex_m2, ex_m1]) ''A'' = Some ex_m1 \<and>
   invalidated (handleNewMessage ex_state ex_m2) = [ChatsKey] \<and>
   preview (chatsFetched ex_chats ex_state) ''B'' = Some ex_b0"
proof -
  have h: "chatId ex_m2 = chat_id ex_state"
    by (simp add: ex_m2_def ex_state_def)
  have pv: "preview ex_state ''A'' = Some ex_m1"
    by (simp add: preview_def allChats_def ex_state_def ex_chats_def)
  have inv: "invalidated ex_state = []"
    by (simp add: ex_state_def)
  show ?thesis
    using h push_never_writes_preview [of ex_state "[ex_m2, ex_m1]" "''A''" ex_m2 ex_chats]
      push_never_writes_preview [of ex_state "[]" "''B''" ex_m2 ex_chats]
    by (simp add: pv inv ex_chats_def)
qed

text \<open>
  Claim C5 as stated fails in its second half: the preview of chat A is \<open>m1\<close>; the push
  of the later message \<open>m2\<close> for chat A leaves the preview at \<open>m1\<close>.
\<close>

theorem later_push_keeps_preview:
  "preview ex_state ''A'' = Some ex_m1 \<and> chatId ex_m2 = ''A'' \<and> chat_id ex_state = ''A'' \<and>
   createdAt ex_m1 < createdAt ex_m2 \<and>
   preview (handleNewMessage ex_state ex_m2) ''A'' = Some ex_m1 \<and>
   ex_m1 \<noteq> ex_m2"
  by (simp add: handleNewMessage_def invalidateQueries_def setQueryData_def preview_def
      allChats_def ex_state_def ex_chats_def ex_m1_def ex_m2_def)

section \<open>Sending\<close>

text \<open>
  Claim C4. Submitting a draft that consists of white space only, the empty draft
  included, leaves the whole state as it was: no request is issued and no store is
  touched. A request is issued only when the trimmed draft is not empty, and then its
  content is the trimmed draft.
\<close>

theorem blank_draft_is_not_sent:
  "((\<forall>c\<in>set (draft st). isWhiteSpace c) \<longrightarrow> handleSendMessage st = st) \<and>
   (outbox (handleSendMessage st) \<noteq> outbox st \<longrightarrow> trim (draft st) \<noteq> []) \<and>
   (trim (draft st) \<noteq> [] \<longrightarrow>
      outbox (handleSendMessage st)
        = outbox st @ [\<lparr>req_chatId = chat_id st, req_content = trim (draft st)\<rparr>])"
  by (simp add: handleSendMessage_def mutate_def trim_eq_Nil_iff)

theorem blank_draft_is_not_sent_witness:
  "isWhiteSpace 0x0020 \<and> isWhiteSpace 0x0009 \<and> isWhiteSpace 0x3000 \<and> isWhiteSpace 0x000A \<and>
   handleSendMessage (ex_state\<lparr>draft := ex_blank\<rparr>) = ex_state\<lparr>draft := ex_blank\<rparr> \<and>
   handleSendMessage (ex_state\<lparr>draft := []\<rparr>) = ex_state\<lparr>draft := []\<rparr> \<and>
   trim ex_padded = [0x0068, 0x0069] \<and>
   outbox (handleSendMessage (ex_state\<lparr>draft := ex_padded\<rparr>))
     \<noteq> outbox (ex_state\<lparr>draft := ex_padded\<rparr>) \<and>
   outbox (handleSendMessage (ex_state\<lparr>draft := ex_padded\<rparr>))
     = [\<lparr>req_chatId = ''A'', req_content = [0x0068, 0x0069]\<rparr>]"
proof -
  have ws: "isWhiteSpace 0x0020 \<and> isWhiteSpace 0x0009 \<and> isWhiteSpace 0x3000 \<and> isWhiteSpace 0x000A"
    by (simp add: isWhiteSpace_def)
  have nws: "\<not> isWhiteSpace 0x0068" "\<not> isWhiteSpace 0x0069"
    by (simp_all add: isWhiteSpace_def)
  have tr: "trim ex_padded = [0x0068, 0x0069]"
    by (simp add: trim_def ex_padded_def ws nws)
  have st: "chat_id ex_state = ''A''" "outbox ex_state = []"
    by (simp_all add: ex_state_def)
  show ?thesis
    using blank_draft_is_not_sent [of "ex_state\<lparr>draft := ex_blank\<rparr>"]
      blank_draft_is_not_sent [of "ex_state\<lparr>draft := []\<rparr>"]
      blank_draft_is_not_sent [of "ex_state\<lparr>draft := ex_padded\<rparr>"]
    by (simp add: ws tr st ex_blank_def)
qed

text \<open>
  Claim C6. When the send succeeds the draft is cleared. When it fails the query cache
  (threads and directory) is left as it was and nothing is invalidated or sent, the error
  notification is raised, the draft is kept as it was, and the input is enabled again.
\<close>

theorem send_callbacks:
  "draft (onSuccess st) = [] \<and>
   threads (onError st) = threads st \<and> chats (onError st) = chats st \<and>
   invalidated (onError st) = invalidated st \<and> fetching (onError st) = fetching st \<and>
   outbox (onError st) = outbox st \<and>
   toasts (onError st) = toasts st @ [''Errore nell'invio del messaggio''] \<and>
   draft (onError st) = draft st \<and>
   input_disabled (onError st) = False"
  by (simp add: onSuccess_def onError_def invalidateQueries_def input_disabled_def)

text \<open>
  Claim C9. While the mutation is pending, the text input and the submit button are both
  disabled, and the form cannot be submitted: a submission leaves the state, and with it
  the list of issued requests, as it was.
\<close>

theorem pending_send_disables_compose:
  "isPending st \<Longrightarrow> input_disabled st \<and> submit_disabled st \<and> submitForm st = st"
  by (simp add: input_disabled_def submit_disabled_def submitForm_def)

theorem pending_send_disables_compose_witness:
  "isPending (submitForm (ex_state\<lparr>draft := ex_padded\<rparr>)) \<and>
   input_disabled (submitForm (ex_state\<lparr>draft := ex_padded\<rparr>)) \<and>
   submit_disabled (submitForm (ex_state\<lparr>draft := ex_padded\<rparr>)) \<and>
   outbox (submitForm (submitForm (ex_state\<lparr>draft := ex_padded\<rparr>)))
     = [\<lparr>req_chatId = ''A'', req_content = [0x0068, 0x0069]\<rparr>]"
proof -
  have ws: "isWhiteSpace 0x0020" "isWhiteSpace 0x000A" "\<not> isWhiteSpace 0x0068"
    "\<not> isWhiteSpace 0x0069"
    by (simp_all add: isWhiteSpace_def)
  have tr: "trim ex_padded = [0x0068, 0x0069]"
    by (simp add: trim_def ex_padded_def ws)
  have sent: "submitForm (ex_state\<lparr>draft := ex_padded\<rparr>)
      = (ex_state\<lparr>draft := ex_padded\<rparr>)
          \<lparr>isPending := True, outbox := [\<lparr>req_chatId = ''A'', req_content = [0x0068, 0x0069]\<rparr>]\<rparr>"
    by (simp add: submitForm_def submit_disabled_def handleSendMessage_def mutate_def tr
        ex_state_def)
  have h: "isPending (submitForm (ex_state\<lparr>draft := ex_padded\<rparr>))"
    by (simp add: sent)
  show ?thesis
    using h pending_send_disables_compose [OF h] by (simp add: sent)
qed

section \<open>Rendering and fetching\<close>

text \<open>
  Claim C7. When a thread is cached for the displayed chat, the pane shows its messages in
  the reverse of the stored newest-first order, oldest first (and the placeholder when the
  thread is empty), and rendering leaves the stored array as it was: after the pane is
  rendered, the array at the address of the stored thread holds the same sequence as
  before. The reversal works on a copy, and this holds in any array store: the rows are
  the reversal and no array that existed before is changed.
\<close>

theorem rendering_reverses_a_copy:
  "messages_of st (chat_id st) = Some ms \<Longrightarrow>
   message_pane st = (if ms = [] then Placeholder else Rows (rev ms)) \<and>
   snd (render_pane st) ! 0 = ms \<and>
   take 1 (snd (render_pane st)) = [ms] \<and>
   (a < length h \<longrightarrow>
      (case render_rows h a of
         None \<Rightarrow> False
       | Some (h', rows) \<Rightarrow> rows = rev (h ! a) \<and> h' ! a = h ! a \<and> take (length h) h' = h))"
proof -
  assume cached: "messages_of st (chat_id st) = Some ms"
  then have loaded: "\<not> isLoading st"
    by (auto simp add: isLoading_def messages_of_def)
  have pane: "render_pane st = (if ms = [] then (Placeholder, [ms]) else (Rows (rev ms), [ms, rev ms]))"
    using cached loaded by (simp add: render_pane_def pane_store_def render_rows_eq)
  have shown: "message_pane st = (if ms = [] then Placeholder else Rows (rev ms))"
    by (simp add: message_pane_def pane)
  have kept: "snd (render_pane st) ! 0 = ms" "take 1 (snd (render_pane st)) = [ms]"
    by (simp_all add: pane)
  have copy: "a < length h \<longrightarrow>
      (case render_rows h a of
         None \<Rightarrow> False
       | Some (h', rows) \<Rightarrow> rows = rev (h ! a) \<and> h' ! a = h ! a \<and> take (length h) h' = h)"
    by (simp add: render_rows_eq nth_append)
  from shown kept copy show ?thesis by simp
qed

theorem rendering_reverses_a_copy_witness:
  "messages_of (handleNewMessage (messagesFetched ''A'' ex_page ex_state) ex_m2)
     (chat_id (handleNewMessage (messagesFetched ''A'' ex_page ex_state) ex_m2))
     = Some [ex_m2, ex_m1] \<and>
   message_pane (handleNewMessage (messagesFetched ''A'' ex_page ex_state) ex_m2)
     = Rows [ex_m1, ex_m2] \<and>
   snd (render_pane (handleNewMessage (messagesFetched ''A'' ex_page ex_state) ex_m2)) ! 0
     = [ex_m2, ex_m1] \<and>
   (0::nat) < length [[ex_m2, ex_m1]] \<and>
   render_rows [[ex_m2, ex_m1]] 0 = Some ([[ex_m2, ex_m1], [ex_m1, ex_m2]], [ex_m1, ex_m2])"
proof -
  let ?st = "handleNewMessage (messagesFetched ''A'' ex_page ex_state) ex_m2"
  have cached: "messages_of ?st (chat_id ?st) = Some [ex_m2, ex_m1]"
    by (simp add: handleNewMessage_def messagesFetched_def invalidateQueries_def setQueryData_def
        prepend_def messages_of_def ex_page_def ex_state_def ex_m2_def)
  have h: "(0::nat) < length [[ex_m2, ex_m1]]" by simp
  note shown = rendering_reverses_a_copy [OF cached, of 0 "[[ex_m2, ex_m1]]"]
  have pane: "message_pane ?st = Rows [ex_m1, ex_m2]"
    using shown by simp
  have kept: "snd (render_pane ?st) ! 0 = [ex_m2, ex_m1]"
    using shown by simp
  have rows: "render_rows [[ex_m2, ex_m1]] 0 = Some ([[ex_m2, ex_m1], [ex_m1, ex_m2]], [ex_m1, ex_m2])"
    by (simp add: render_rows_def slice_def reverse_def read_array_def)
  from cached pane kept h rows show ?thesis by simp
qed

text \<open>
  Claim C8. A thread response is written to the cache entry of the chat it was fetched
  for. When chat A is selected and then chat B while the fetch for A is still running,
  the response for A, whenever it arrives, leaves the entry of B and the pane of the
  displayed chat B as they are; the thread of B is the page fetched for B, whether the
  response for A arrives before or after it.
\<close>

theorem late_thread_response_is_keyed:
  "a \<noteq> b \<Longrightarrow> a \<noteq> [] \<Longrightarrow> b \<noteq> [] \<Longrightarrow>
   threads (messagesFetched a ra st) b = threads st b \<and>
   (chat_id st = b \<longrightarrow> message_pane (messagesFetched a ra st) = message_pane st) \<and>
   chat_id (selectChat b (selectChat a st)) = b \<and>
   a \<in> set (fetching (selectChat b (selectChat a st))) \<and>
   b \<in> set (fetching (selectChat b (selectChat a st))) \<and>
   messages_of (messagesFetched a ra (messagesFetched b rb (selectChat b (selectChat a st)))) b
     = Some (body_data (resp_data rb)) \<and>
   messages_of (messagesFetched b rb (messagesFetched a ra (selectChat b (selectChat a st)))) b
     = Some (body_data (resp_data rb))"
  by (simp add: messagesFetched_def selectChat_def messages_of_def message_pane_unfold
      isLoading_def)

theorem late_thread_response_is_keyed_witness:
  "''A'' \<noteq> ''B'' \<and> ''A'' \<noteq> [] \<and> ''B'' \<noteq> [] \<and>
   chat_id (messagesFetched ''B'' ex_page_b (selectChat ''B'' (selectChat ''A'' ex_state))) = ''B'' \<and>
   messages_of
     (messagesFetched ''A'' ex_page
        (messagesFetched ''B'' ex_page_b (selectChat ''B'' (selectChat ''A'' ex_state)))) ''B''
     = Some [ex_b1, ex_b0] \<and>
   message_pane
     (messagesFetched ''A'' ex_page
        (messagesFetched ''B'' ex_page_b (selectChat ''B'' (selectChat ''A'' ex_state))))
     = Rows [ex_b0, ex_b1]"
proof -
  let ?s = "messagesFetched ''B'' ex_page_b (selectChat ''B'' (selectChat ''A'' ex_state))"
  have h: "''A'' \<noteq> ''B''" "''A'' \<noteq> []" "''B'' \<noteq> []" by simp_all
  have cid: "chat_id ?s = ''B''"
    by (simp add: messagesFetched_def selectChat_def)
  have pane: "message_pane ?s = Rows [ex_b0, ex_b1]"
    by (simp add: message_pane_unfold isLoading_def messages_of_def messagesFetched_def
        selectChat_def ex_page_b_def)
  have page: "body_data (resp_data ex_page_b) = [ex_b1, ex_b0]"
    by (simp add: ex_page_b_def)
  note scenario = late_thread_response_is_keyed [OF h, of ex_page ex_state ex_page_b]
  note frame = late_thread_response_is_keyed [OF h, of ex_page ?s ex_page_b]
  have thread: "messages_of (messagesFetched ''A'' ex_page ?s) ''B'' = Some [ex_b1, ex_b0]"
    using scenario page by simp
  have same: "message_pane (messagesFetched ''A'' ex_page ?s) = message_pane ?s"
    using frame cid by blast
  from h cid thread same pane show ?thesis by simp
qed

text \<open>
  Claim C10. A push event for the displayed chat that arrives while nothing is cached for
  its thread creates the cache entry with exactly that message, and a thread fetch that
  completes afterwards replaces the entry by its response.
\<close>

theorem push_seeds_missing_thread:
  "chatId m = chat_id st \<Longrightarrow> threads st (chat_id st) = None \<Longrightarrow>
   threads (handleNewMessage st m) (chat_id st)
     = Some \<lparr>resp_data = \<lparr>body_data = [m], body_rest = []\<rparr>, resp_rest = []\<rparr> \<and>
   messages_of (handleNewMessage st m) (chat_id st) = Some [m] \<and>
   threads (messagesFetched (chat_id st) r (handleNewMessage st m)) (chat_id st) = Some r"
  by (simp add: handleNewMessage_def invalidateQueries_def setQueryData_def prepend_def
      messages_of_def messagesFetched_def)

theorem push_seeds_missing_thread_witness:
  "chatId ex_m2 = chat_id ex_state \<and> threads ex_state (chat_id ex_state) = None \<and>
   messages_of (handleNewMessage ex_state ex_m2) ''A'' = Some [ex_m2] \<and>
   messages_of (messagesFetched ''A'' ex_page (handleNewMessage ex_state ex_m2)) ''A''
     = Some [ex_m1]"
proof -
  have h1: "chatId ex_m2 = chat_id ex_state"
    by (simp add: ex_m2_def ex_state_def)
  have h2: "threads ex_state (chat_id ex_state) = None"
    by (simp add: ex_state_def)
  have cid: "chat_id ex_state = ''A''"
    by (simp add: ex_state_def)
  show ?thesis
    using h1 h2 push_seeds_missing_thread [OF h1 h2, of ex_page]
    by (simp add: cid messages_of_def ex_page_def)
qed

end
